theory Spec2Isabelle
  imports Main
begin

section \<open>What the configuration reads from its host\<close>

text \<open>
  \<^verbatim>\<open>webpack.config.js\<close> is evaluated once by Node. It reads four things it does not
  define: the environment variable \<^verbatim>\<open>process.env.NODE_ENV\<close> (a string, or
  \<^verbatim>\<open>undefined\<close> when the variable is not set), the directory \<^verbatim>\<open>__dirname\<close>, the
  library function \<^verbatim>\<open>path.resolve\<close>, and the static property
  \<^verbatim>\<open>MiniCssExtractPlugin.loader\<close>. They are the fields of the record \<open>host\<close>; the
  module is a function of it.
\<close>

record host =
  NODE_ENV :: "string option"
  dirname :: string
  path_resolve :: "string \<Rightarrow> string \<Rightarrow> string"
  MiniCssExtractPlugin_loader :: string

section \<open>Regular expression literals\<close>

text \<open>
  The three literals of the file, \<^verbatim>\<open>/\.s[ac]ss$/i\<close>, \<^verbatim>\<open>/\.js$/\<close> and
  \<^verbatim>\<open>/node_modules/\<close>, are sequences of single-character atoms (a literal character
  or a character class), optionally anchored at the end of the input by \<^verbatim>\<open>$\<close>, with
  or without the flag \<^verbatim>\<open>i\<close>. \<open>regexp_test\<close> is \<^verbatim>\<open>RegExp.prototype.test\<close> on that
  fragment: the pattern may start at any position of the input; without the flag
  \<^verbatim>\<open>m\<close> the anchor \<^verbatim>\<open>$\<close> is the end of the input. Under the flag \<^verbatim>\<open>i\<close> both
  sides are canonicalised by upper-casing, which on the ASCII letters of these patterns
  maps \<^verbatim>\<open>a\<close>..\<^verbatim>\<open>z\<close> to \<^verbatim>\<open>A\<close>..\<^verbatim>\<open>Z\<close> and leaves every other character alone.
\<close>

datatype atom = Chr char | Cls "char list"

record regexp =
  atoms :: "atom list"
  at_end :: bool
  ignoreCase :: bool

definition to_upper :: "char \<Rightarrow> char" where
  "to_upper c =
     (case map_of (zip ''abcdefghijklmnopqrstuvwxyz'' ''ABCDEFGHIJKLMNOPQRSTUVWXYZ'') c of
        Some u \<Rightarrow> u
      | None \<Rightarrow> c)"

definition canonicalize :: "bool \<Rightarrow> char \<Rightarrow> char" where
  "canonicalize ic c = (if ic then to_upper c else c)"

fun atom_matches :: "bool \<Rightarrow> atom \<Rightarrow> char \<Rightarrow> bool" where
  "atom_matches ic (Chr a) c = (canonicalize ic a = canonicalize ic c)"
| "atom_matches ic (Cls as) c = (canonicalize ic c \<in> set (map (canonicalize ic) as))"

fun match_here :: "bool \<Rightarrow> bool \<Rightarrow> atom list \<Rightarrow> string \<Rightarrow> bool" where
  "match_here ic e [] s = (if e then s = [] else True)"
| "match_here ic e (a # as) [] = False"
| "match_here ic e (a # as) (c # cs) = (atom_matches ic a c \<and> match_here ic e as cs)"

fun regexp_search :: "bool \<Rightarrow> bool \<Rightarrow> atom list \<Rightarrow> string \<Rightarrow> bool" where
  "regexp_search ic e as [] = match_here ic e as []"
| "regexp_search ic e as (c # cs) = (match_here ic e as (c # cs) \<or> regexp_search ic e as cs)"

definition regexp_test :: "regexp \<Rightarrow> string \<Rightarrow> bool" where
  "regexp_test r s = regexp_search (ignoreCase r) (at_end r) (atoms r) s"

section \<open>The shape of the exported object\<close>

text \<open>
  An entry of a rule's \<^verbatim>\<open>use\<close> array is either a loader's name or an object
  \<^verbatim>\<open>{loader, options}\<close>; an option's value is a boolean or an array of names.
\<close>

datatype option_value = Flag bool | Names "string list"

datatype use_entry = Loader string | LoaderWith string "(string \<times> option_value) list"

record rule =
  test :: regexp
  exclude :: "regexp option"
  use :: "use_entry list"

record output_options =
  filename :: string
  path :: string

record resolve_options =
  extensions :: "string list"
  alias_map :: "(string \<times> string) list"

text \<open>\<^verbatim>\<open>devtool\<close> is a string or \<^verbatim>\<open>false\<close>.\<close>

datatype devtool_value = Devtool string | DevtoolFalse

record devServer_options =
  port :: nat
  hot :: bool

record minify_options =
  removeComments :: bool
  collapseWhitespace :: bool

record html_options =
  template :: string
  minify :: minify_options

record copy_pattern =
  copy_from :: string
  copy_to :: string

text \<open>
  The four plugin objects, each with the options its constructor is given:
  \<^verbatim>\<open>new CleanWebpackPlugin()\<close>, \<^verbatim>\<open>new HTMLWebpackPlugin({template, minify})\<close>,
  \<^verbatim>\<open>new CopyPlugin({patterns})\<close> and \<^verbatim>\<open>new MiniCssExtractPlugin({filename})\<close>.
\<close>

datatype plugin =
  CleanWebpackPlugin
| HTMLWebpackPlugin html_options
| CopyPlugin "copy_pattern list"
| MiniCssExtractPlugin string

record configuration =
  cfg_context :: string
  mode :: string
  entry :: "string list"
  cfg_output :: output_options
  resolve :: resolve_options
  devtool :: devtool_value
  devServer :: devServer_options
  plugins :: "plugin list"
  module_rules :: "rule list"

section \<open>The module\<close>

text \<open>\<^verbatim>\<open>const isProd = process.env.NODE_ENV === "production"; const isDev = !isProd;\<close>\<close>

definition isProd :: "string option \<Rightarrow> bool" where
  "isProd env = (env = Some ''production'')"

definition isDev :: "string option \<Rightarrow> bool" where
  "isDev env = (\<not> isProd env)"

text \<open>\<^verbatim>\<open>const fileName = ext => isDev ? `bundle.${ext}` : `bundle.[hash].${ext}`;\<close>\<close>

definition fileName :: "string option \<Rightarrow> string \<Rightarrow> string" where
  "fileName env ext = (if isDev env then ''bundle.'' @ ext else ''bundle.[hash].'' @ ext)"

text \<open>
  \<^verbatim>\<open>jsLoaders\<close> builds the array with the Babel loader and pushes
  \<^verbatim>\<open>"eslint-loader"\<close> onto its end when \<^verbatim>\<open>isDev\<close>.
\<close>

definition jsLoaders :: "string option \<Rightarrow> use_entry list" where
  "jsLoaders env =
     (let loaders = [LoaderWith ''babel-loader'' [(''presets'', Names [''@babel/preset-env''])]]
      in if isDev env then loaders @ [Loader ''eslint-loader''] else loaders)"

definition module_exports :: "host \<Rightarrow> configuration" where
  "module_exports h =
     \<lparr> cfg_context = path_resolve h (dirname h) ''src'',
       mode = ''development'',
       entry = [''@babel/polyfill'', ''./index.js''],
       cfg_output =
         \<lparr> filename = fileName (NODE_ENV h) ''js'',
           path = path_resolve h (dirname h) ''dist'' \<rparr>,
       resolve =
         \<lparr> extensions = [''.js''],
           alias_map =
             [(''@'', path_resolve h (dirname h) ''src''),
              (''@core'', path_resolve h (dirname h) ''src/core'')] \<rparr>,
       devtool = (if isDev (NODE_ENV h) then Devtool ''source-map'' else DevtoolFalse),
       devServer = \<lparr> port = 3000, hot = isDev (NODE_ENV h) \<rparr>,
       plugins =
         [CleanWebpackPlugin,
          HTMLWebpackPlugin
            \<lparr> template = ''index.html'',
              minify =
                \<lparr> removeComments = isProd (NODE_ENV h),
                  collapseWhitespace = isProd (NODE_ENV h) \<rparr> \<rparr>,
          CopyPlugin
            [\<lparr> copy_from = path_resolve h (dirname h) ''src/favicon.ico'',
               copy_to = path_resolve h (dirname h) ''dist'' \<rparr>],
          MiniCssExtractPlugin (fileName (NODE_ENV h) ''css'')],
       module_rules =
         [\<lparr> test =
              \<lparr> atoms = [Chr CHR ''.'', Chr CHR ''s'', Cls ''ac'', Chr CHR ''s'', Chr CHR ''s''],
                at_end = True, ignoreCase = True \<rparr>,
            exclude = None,
            use =
              [LoaderWith (MiniCssExtractPlugin_loader h)
                 [(''hmr'', Flag (isDev (NODE_ENV h))), (''reloadAll'', Flag True)],
               Loader ''css-loader'',
               Loader ''sass-loader''] \<rparr>,
          \<lparr> test =
              \<lparr> atoms = [Chr CHR ''.'', Chr CHR ''j'', Chr CHR ''s''],
                at_end = True, ignoreCase = False \<rparr>,
            exclude =
              Some \<lparr> atoms = map Chr ''node_modules'', at_end = False, ignoreCase = False \<rparr>,
            use = jsLoaders (NODE_ENV h) \<rparr>] \<rparr>"

section \<open>Reading the claims on the exported object\<close>

text \<open>
  The mode-conditional values of the exported object are the two bundle file names, the
  \<^verbatim>\<open>devtool\<close> setting, the dev server's \<^verbatim>\<open>hot\<close> toggle, the two minification flags
  of the template plugin, the \<^verbatim>\<open>hmr\<close> option of the style-extraction loader and the
  presence of \<^verbatim>\<open>"eslint-loader"\<close>. \<open>erase_mode_conditional\<close> overwrites each of them
  with a fixed value (and drops the lint loader) and keeps everything else, so that two
  configurations have the same image exactly when they differ in those values only.
\<close>

fun erase_use_entry :: "use_entry \<Rightarrow> use_entry" where
  "erase_use_entry (Loader l) = Loader l"
| "erase_use_entry (LoaderWith l opts) =
     LoaderWith l (map (\<lambda>(k, v). if k = ''hmr'' then (k, Flag False) else (k, v)) opts)"

definition erase_rule :: "rule \<Rightarrow> rule" where
  "erase_rule r =
     r\<lparr> use := map erase_use_entry (filter (\<lambda>u. u \<noteq> Loader ''eslint-loader'') (use r)) \<rparr>"

fun erase_plugin :: "plugin \<Rightarrow> plugin" where
  "erase_plugin CleanWebpackPlugin = CleanWebpackPlugin"
| "erase_plugin (HTMLWebpackPlugin opts) =
     HTMLWebpackPlugin
       (opts\<lparr> minify := \<lparr> removeComments = False, collapseWhitespace = False \<rparr> \<rparr>)"
| "erase_plugin (CopyPlugin ps) = CopyPlugin ps"
| "erase_plugin (MiniCssExtractPlugin f) = MiniCssExtractPlugin []"

definition erase_mode_conditional :: "configuration \<Rightarrow> configuration" where
  "erase_mode_conditional c =
     c\<lparr> cfg_output := (cfg_output c)\<lparr> filename := [] \<rparr>,
        devtool := DevtoolFalse,
        devServer := (devServer c)\<lparr> hot := False \<rparr>,
        plugins := map erase_plugin (plugins c),
        module_rules := map erase_rule (module_rules c) \<rparr>"

text \<open>The constructor a plugin object was made with.\<close>

fun plugin_name :: "plugin \<Rightarrow> string" where
  "plugin_name CleanWebpackPlugin = ''CleanWebpackPlugin''"
| "plugin_name (HTMLWebpackPlugin opts) = ''HTMLWebpackPlugin''"
| "plugin_name (CopyPlugin ps) = ''CopyPlugin''"
| "plugin_name (MiniCssExtractPlugin f) = ''MiniCssExtractPlugin''"

text \<open>
  A concrete host for evaluating the module: a POSIX checkout directory.
  \<open>posix_join\<close> stands for \<^verbatim>\<open>path.resolve\<close> on the arguments the module gives it
  only: a normalised absolute directory (as \<^verbatim>\<open>__dirname\<close> is) and a relative path
  without \<^verbatim>\<open>.\<close> or \<^verbatim>\<open>..\<close> segments. There \<^verbatim>\<open>path.resolve\<close> joins the two with one
  separator, and with none after the root directory. It is not \<^verbatim>\<open>path.resolve\<close> on
  other arguments: it normalises nothing.
\<close>

definition posix_join :: "string \<Rightarrow> string \<Rightarrow> string" where
  "posix_join dir p = (if dir = ''/'' then dir @ p else dir @ ''/'' @ p)"

definition host_with :: "string option \<Rightarrow> host" where
  "host_with env =
     \<lparr> NODE_ENV = env,
       dirname = ''/srv/excel-course'',
       path_resolve = posix_join,
       MiniCssExtractPlugin_loader = ''/srv/excel-course/node_modules/mini-css-extract-plugin/dist/loader.js'' \<rparr>"

section \<open>The mode flags\<close>

text \<open>
  C4. The mode flag is a total function of the environment signal: \<open>isProd\<close> holds
  exactly when the signal is the string \<^verbatim>\<open>production\<close>, and \<open>isDev\<close> holds for every
  other string (the comparison is exact, so a differently capitalised marker is not
  production) and for an absent signal. Exactly one of the two flags holds, and no
  input is an error.
\<close>

theorem isProd_exactly_production:
  "isProd env = (env = Some ''production'')
   \<and> isDev env = (env \<noteq> Some ''production'')
   \<and> isDev env = (\<not> isProd env)
   \<and> isProd (Some ''production'')
   \<and> isDev None
   \<and> isDev (Some ''Production'')
   \<and> isDev (Some [])"
  by (simp add: isProd_def isDev_def)

section \<open>Bundle file names\<close>

lemma isProd_production: "isProd (Some ''production'')"
  by (simp add: isProd_def)

lemma isDev_unset: "isDev None"
  by (simp add: isDev_def isProd_def)

lemma NODE_ENV_host_with: "NODE_ENV (host_with env) = env"
  by (simp add: host_with_def)

text \<open>
  C5. In development, \<open>fileName\<close> returns \<^verbatim>\<open>bundle.js\<close> for the script bundle and
  \<^verbatim>\<open>bundle.css\<close> for the style bundle, and in general \<^verbatim>\<open>bundle.<ext>\<close>: there is no
  hash segment. The name depends on nothing but the extension: every development
  signal gives the same name.
\<close>

theorem fileName_development:
  assumes "isDev env" and "isDev env'"
  shows "fileName env ''js'' = ''bundle.js''
    \<and> fileName env ''css'' = ''bundle.css''
    \<and> fileName env ext = ''bundle.'' @ ext
    \<and> fileName env' ext = fileName env ext"
  using assms by (simp add: fileName_def)

theorem fileName_development_witness:
  "isDev None \<and> isDev (Some ''development'')
   \<and> fileName None ''js'' = ''bundle.js''
   \<and> fileName None ''css'' = ''bundle.css''
   \<and> fileName (Some ''development'') ''css'' = fileName None ''css''"
proof -
  have d: "isDev None" by (rule isDev_unset)
  have d': "isDev (Some ''development'')" by (simp add: isDev_def isProd_def)
  from fileName_development[OF d d', of "''css''"] d d'
  show ?thesis by simp
qed

text \<open>
  C1, as the code has it. \<open>fileName\<close> takes the extension only: no build hash can be
  handed to it. In production it returns \<^verbatim>\<open>bundle.[hash].<ext>\<close>, where the hash
  segment is the literal placeholder \<^verbatim>\<open>[hash]\<close> that the build executor substitutes
  later: \<^verbatim>\<open>bundle.[hash].js\<close> for the script bundle and \<^verbatim>\<open>bundle.[hash].css\<close> for the
  style bundle.
\<close>

theorem fileName_production_placeholder:
  assumes "isProd env"
  shows "fileName env ext = ''bundle.'' @ ''[hash]'' @ ''.'' @ ext
    \<and> fileName env ''js'' = ''bundle.[hash].js''
    \<and> fileName env ''css'' = ''bundle.[hash].css''"
  using assms by (simp add: fileName_def isDev_def)

theorem fileName_production_placeholder_witness:
  "isProd (Some ''production'')
   \<and> fileName (Some ''production'') ''js'' = ''bundle.[hash].js''
   \<and> fileName (Some ''production'') ''css'' = ''bundle.[hash].css''"
proof -
  have p: "isProd (Some ''production'')" by (rule isProd_production)
  from fileName_production_placeholder[OF p, of "''js''"] p
  show ?thesis by simp
qed

text \<open>
  C1 as stated fails: in production the name of the script bundle is not
  \<^verbatim>\<open>bundle.a1b2c3.js\<close>, whatever hash the build is given.
\<close>

theorem fileName_supplied_hash_counterexample:
  "isProd (Some ''production'')
   \<and> fileName (Some ''production'') ''js'' \<noteq> ''bundle.'' @ ''a1b2c3'' @ ''.'' @ ''js''"
  by (simp add: fileName_def isDev_def isProd_def)

text \<open>
  C2, as the code has it. In production, with no build hash supplied (none can be),
  \<open>fileName\<close> raises nothing: it returns the template name \<^verbatim>\<open>bundle.[hash].<ext>\<close>,
  and the module is assembled with that name as \<^verbatim>\<open>output.filename\<close> and as the
  \<^verbatim>\<open>filename\<close> of the style-extraction plugin.
\<close>

theorem production_assembly_completes:
  assumes "isProd (NODE_ENV h)"
  shows "fileName (NODE_ENV h) ext = ''bundle.[hash].'' @ ext
    \<and> filename (cfg_output (module_exports h)) = ''bundle.[hash].js''
    \<and> plugins (module_exports h) ! 3 = MiniCssExtractPlugin ''bundle.[hash].css''"
  using assms by (simp add: module_exports_def fileName_def isDev_def)

theorem production_assembly_completes_witness:
  "isProd (NODE_ENV (host_with (Some ''production'')))
   \<and> filename (cfg_output (module_exports (host_with (Some ''production'')))) = ''bundle.[hash].js''
   \<and> plugins (module_exports (host_with (Some ''production''))) ! 3
       = MiniCssExtractPlugin ''bundle.[hash].css''"
proof -
  have p: "isProd (NODE_ENV (host_with (Some ''production'')))"
    by (simp add: NODE_ENV_host_with isProd_production)
  from production_assembly_completes[OF p, of "''js''"] p
  show ?thesis by simp
qed

text \<open>
  C2 as stated fails: the production call without a hash returns a value, and the
  exported object is built.
\<close>

theorem fileName_no_hash_returns_counterexample:
  "isProd (Some ''production'')
   \<and> fileName (Some ''production'') ''css'' = ''bundle.[hash].css''
   \<and> filename (cfg_output (module_exports (host_with (Some ''production'')))) = ''bundle.[hash].js''"
  by (simp add: module_exports_def host_with_def fileName_def isDev_def isProd_def)

section \<open>The mode field\<close>

text \<open>
  C3, as the code has it. The \<^verbatim>\<open>mode\<close> field of the exported object is the fixed
  string \<^verbatim>\<open>development\<close> for every host, whatever the environment signal is.
\<close>

theorem mode_field_fixed:
  "mode (module_exports h) = ''development''
   \<and> mode (module_exports (h\<lparr>NODE_ENV := env\<rparr>)) = mode (module_exports h)"
  by (simp add: module_exports_def)

text \<open>
  C3 as stated fails: under the production signal the flag \<open>isProd\<close> holds and the
  \<^verbatim>\<open>mode\<close> field is not \<^verbatim>\<open>production\<close>.
\<close>

theorem mode_field_production_counterexample:
  "isProd (NODE_ENV (host_with (Some ''production'')))
   \<and> mode (module_exports (host_with (Some ''production''))) \<noteq> ''production''
   \<and> mode (module_exports (host_with (Some ''production''))) = ''development''"
  by (simp add: module_exports_def host_with_def isProd_def)

section \<open>Matching file names\<close>

lemma regexp_search_prefix: "regexp_search ic e as s \<Longrightarrow> regexp_search ic e as (p @ s)"
  by (induction p) auto

lemma regexp_search_split:
  "regexp_search ic e as s \<Longrightarrow> \<exists>p q. s = p @ q \<and> match_here ic e as q"
proof (induction s)
  case Nil
  then show ?case by simp
next
  case (Cons c cs)
  show ?case
  proof (cases "match_here ic e as (c # cs)")
    case True
    then show ?thesis by blast
  next
    case False
    with Cons obtain p q where "cs = p @ q" and m: "match_here ic e as q" by auto
    then have "c # cs = (c # p) @ q" by simp
    with m show ?thesis by blast
  qed
qed

lemma regexp_search_iff:
  "regexp_search ic e as s \<longleftrightarrow> (\<exists>p q. s = p @ q \<and> match_here ic e as q)"
proof
  assume "regexp_search ic e as s"
  then show "\<exists>p q. s = p @ q \<and> match_here ic e as q" by (rule regexp_search_split)
next
  assume "\<exists>p q. s = p @ q \<and> match_here ic e as q"
  then obtain p q where s: "s = p @ q" and m: "match_here ic e as q" by blast
  from m have "regexp_search ic e as q" by (cases q) auto
  then show "regexp_search ic e as s" unfolding s by (rule regexp_search_prefix)
qed

lemma match_here_literal:
  "match_here False e (map Chr w) s \<longleftrightarrow> (if e then s = w else \<exists>t. s = w @ t)"
proof (induction w arbitrary: s)
  case Nil
  then show ?case by simp
next
  case (Cons a w)
  then show ?case by (cases s) (auto simp: canonicalize_def)
qed

lemma match_here_anchored:
  "match_here ic True as q \<longleftrightarrow> list_all2 (atom_matches ic) as q"
  by (induction ic "True" as q rule: match_here.induct) auto

lemma to_upper_literals:
  "to_upper CHR ''.'' = CHR ''.''" "to_upper CHR ''s'' = CHR ''S''"
  "to_upper CHR ''a'' = CHR ''A''" "to_upper CHR ''c'' = CHR ''C''"
  by (simp_all add: to_upper_def)

lemma sass_suffix:
  "match_here True True [Chr CHR ''.'', Chr CHR ''s'', Cls ''ac'', Chr CHR ''s'', Chr CHR ''s''] q
   \<longleftrightarrow> (map to_upper q = ''.SASS'' \<or> map to_upper q = ''.SCSS'')"
  by (auto simp add: match_here_anchored list_all2_Cons1 canonicalize_def to_upper_literals)

lemma sass_test:
  "regexp_test
     \<lparr> atoms = [Chr CHR ''.'', Chr CHR ''s'', Cls ''ac'', Chr CHR ''s'', Chr CHR ''s''],
       at_end = True, ignoreCase = True \<rparr> s
   \<longleftrightarrow> (\<exists>stem suf. s = stem @ suf
         \<and> (map to_upper suf = ''.SASS'' \<or> map to_upper suf = ''.SCSS''))"
  by (simp add: regexp_test_def regexp_search_iff sass_suffix)

lemma literal_test_anchored:
  "regexp_test \<lparr> atoms = map Chr w, at_end = True, ignoreCase = False \<rparr> s
   \<longleftrightarrow> (\<exists>stem. s = stem @ w)"
  by (simp add: regexp_test_def regexp_search_iff match_here_literal)

lemma literal_test_unanchored:
  "regexp_test \<lparr> atoms = map Chr w, at_end = False, ignoreCase = False \<rparr> s
   \<longleftrightarrow> (\<exists>a b. s = a @ w @ b)"
  by (auto simp add: regexp_test_def regexp_search_iff match_here_literal)

lemma js_test:
  "regexp_test
     \<lparr> atoms = [Chr CHR ''.'', Chr CHR ''j'', Chr CHR ''s''], at_end = True, ignoreCase = False \<rparr> s
   \<longleftrightarrow> (\<exists>stem. s = stem @ ''.js'')"
  using literal_test_anchored [of "''.js''" s] by simp

section \<open>The transformation rules\<close>

lemma sass_test_suffix:
  assumes "map to_upper suf = ''.SASS'' \<or> map to_upper suf = ''.SCSS''"
  shows "regexp_test
     \<lparr> atoms = [Chr CHR ''.'', Chr CHR ''s'', Cls ''ac'', Chr CHR ''s'', Chr CHR ''s''],
       at_end = True, ignoreCase = True \<rparr> (stem @ suf)"
proof -
  from assms have "stem @ suf = stem @ suf
      \<and> (map to_upper suf = ''.SASS'' \<or> map to_upper suf = ''.SCSS'')"
    by (simp only: simp_thms)
  then have "\<exists>a b. stem @ suf = a @ b
      \<and> (map to_upper b = ''.SASS'' \<or> map to_upper b = ''.SCSS'')"
    by (intro exI)
  then show ?thesis by (simp only: sass_test)
qed

text \<open>
  What the first rule of \<^verbatim>\<open>module.rules\<close>, the style rule, computes in every mode. Its
  pattern \<^verbatim>\<open>/\.s[ac]ss$/i\<close> matches exactly the names that end in \<^verbatim>\<open>.sass\<close> or
  \<^verbatim>\<open>.scss\<close>, in any letter case; it has no \<^verbatim>\<open>exclude\<close>. Its steps are, in
  declaration order, the style-extraction loader with the options \<^verbatim>\<open>hmr\<close> (true
  exactly in development) and \<^verbatim>\<open>reloadAll\<close> (always true), then \<^verbatim>\<open>css-loader\<close>, then
  \<^verbatim>\<open>sass-loader\<close>.
\<close>

lemma style_rule:
  "(let r = module_rules (module_exports h) ! 0 in
      regexp_test (test r) s
        = (\<exists>stem suf. s = stem @ suf
             \<and> (map to_upper suf = ''.SASS'' \<or> map to_upper suf = ''.SCSS''))
      \<and> regexp_test (test r) (stem @ ''.sass'')
      \<and> regexp_test (test r) (stem @ ''.scss'')
      \<and> regexp_test (test r) (stem @ ''.SCSS'')
      \<and> exclude r = None
      \<and> use r =
          [LoaderWith (MiniCssExtractPlugin_loader h)
             [(''hmr'', Flag (isDev (NODE_ENV h))), (''reloadAll'', Flag True)],
           Loader ''css-loader'',
           Loader ''sass-loader''])"
proof -
  let ?r = "module_rules (module_exports h) ! 0"
  let ?re = "\<lparr> atoms = [Chr CHR ''.'', Chr CHR ''s'', Cls ''ac'', Chr CHR ''s'', Chr CHR ''s''],
               at_end = True, ignoreCase = True \<rparr>"
  have t: "test ?r = ?re"
    by (simp add: module_exports_def)
  have e: "exclude ?r = None"
    by (simp add: module_exports_def)
  have u: "use ?r =
      [LoaderWith (MiniCssExtractPlugin_loader h)
         [(''hmr'', Flag (isDev (NODE_ENV h))), (''reloadAll'', Flag True)],
       Loader ''css-loader'',
       Loader ''sass-loader'']"
    by (simp add: module_exports_def)
  have a: "regexp_test ?re (stem @ ''.sass'')"
    by (rule sass_test_suffix) (simp add: to_upper_def)
  have b: "regexp_test ?re (stem @ ''.scss'')"
    by (rule sass_test_suffix) (simp add: to_upper_def)
  have c: "regexp_test ?re (stem @ ''.SCSS'')"
    by (rule sass_test_suffix) (simp add: to_upper_def)
  show ?thesis
    unfolding Let_def t e u by (intro conjI a b c sass_test refl)
qed

text \<open>
  C6. The style rule is to match the \<^verbatim>\<open>.sass\<close>, \<^verbatim>\<open>.scss\<close> and \<^verbatim>\<open>.css\<close> extensions, and
  the comment beside the pattern says that it tests the extension \<^verbatim>\<open>.sass\<close> or
  \<^verbatim>\<open>.css\<close>. The code does not do so: on every host, hence in both modes, the pattern
  of the style rule rejects the stylesheet name \<^verbatim>\<open>main.css\<close>, while it accepts
  \<^verbatim>\<open>main.scss\<close> and \<^verbatim>\<open>main.sass\<close>. No other rule takes the name either: the script
  rule's pattern rejects it too.
\<close>

theorem style_rule_misses_css:
  "\<not> regexp_test (test (module_rules (module_exports h) ! 0)) ''main.css''
   \<and> regexp_test (test (module_rules (module_exports h) ! 0)) ''main.scss''
   \<and> regexp_test (test (module_rules (module_exports h) ! 0)) ''main.sass''
   \<and> \<not> regexp_test (test (module_rules (module_exports h) ! 1)) ''main.css''
   \<and> length (module_rules (module_exports h)) = 2"
  by (simp add: module_exports_def regexp_test_def canonicalize_def to_upper_def)

text \<open>
  C7. In every mode the second rule of \<^verbatim>\<open>module.rules\<close> is the script rule. Its pattern
  matches exactly the names ending in \<^verbatim>\<open>.js\<close>; its \<^verbatim>\<open>exclude\<close> pattern matches exactly
  the paths that contain \<^verbatim>\<open>node_modules\<close>. Its step sequence starts with
  \<^verbatim>\<open>babel-loader\<close> configured with the preset \<^verbatim>\<open>@babel/preset-env\<close>, followed by
  \<^verbatim>\<open>eslint-loader\<close> in development and by nothing in production; so the lint loader
  is among the steps exactly in development.
\<close>

theorem script_rule:
  "(let r = module_rules (module_exports h) ! 1 in
      regexp_test (test r) s = (\<exists>stem. s = stem @ ''.js'')
      \<and> (\<exists>ex. exclude r = Some ex
            \<and> regexp_test ex p = (\<exists>a b. p = a @ ''node_modules'' @ b))
      \<and> use r =
          LoaderWith ''babel-loader'' [(''presets'', Names [''@babel/preset-env''])]
            # (if isDev (NODE_ENV h) then [Loader ''eslint-loader''] else [])
      \<and> (Loader ''eslint-loader'' \<in> set (use r)) = isDev (NODE_ENV h))"
proof -
  let ?r = "module_rules (module_exports h) ! 1"
  have t: "test ?r =
      \<lparr> atoms = [Chr CHR ''.'', Chr CHR ''j'', Chr CHR ''s''], at_end = True, ignoreCase = False \<rparr>"
    by (simp add: module_exports_def)
  have e: "exclude ?r =
      Some \<lparr> atoms = map Chr ''node_modules'', at_end = False, ignoreCase = False \<rparr>"
    by (simp add: module_exports_def)
  have u: "use ?r = jsLoaders (NODE_ENV h)"
    by (simp add: module_exports_def)
  have j: "jsLoaders (NODE_ENV h) =
      LoaderWith ''babel-loader'' [(''presets'', Names [''@babel/preset-env''])]
        # (if isDev (NODE_ENV h) then [Loader ''eslint-loader''] else [])"
    by (simp add: jsLoaders_def Let_def)
  have l: "(Loader ''eslint-loader'' \<in> set (jsLoaders (NODE_ENV h))) = isDev (NODE_ENV h)"
    by (simp add: jsLoaders_def Let_def)
  let ?nm = "\<lparr> atoms = map Chr ''node_modules'', at_end = False, ignoreCase = False \<rparr>"
  have x: "\<exists>ex. Some ?nm = Some ex
          \<and> regexp_test ex p = (\<exists>a b. p = a @ ''node_modules'' @ b)"
  proof (intro exI conjI)
    show "Some ?nm = Some ?nm" by (rule refl)
    show "regexp_test ?nm p = (\<exists>a b. p = a @ ''node_modules'' @ b)"
      by (rule literal_test_unanchored)
  qed
  show ?thesis
    unfolding Let_def t e u l by (intro conjI js_test x j refl)
qed

section \<open>The plugins\<close>

text \<open>
  C8. In every mode the second plugin is the template plugin for \<^verbatim>\<open>index.html\<close>, and
  both of its minification options, \<^verbatim>\<open>removeComments\<close> and \<^verbatim>\<open>collapseWhitespace\<close>,
  have the value of \<open>isProd\<close>: on exactly in production, off in development.
\<close>

theorem html_plugin_minify:
  "plugins (module_exports h) ! 1 =
     HTMLWebpackPlugin
       \<lparr> template = ''index.html'',
         minify =
           \<lparr> removeComments = isProd (NODE_ENV h),
             collapseWhitespace = isProd (NODE_ENV h) \<rparr> \<rparr>
   \<and> isProd (NODE_ENV h) = (\<not> isDev (NODE_ENV h))
   \<and> [p \<leftarrow> plugins (module_exports h). plugin_name p = ''HTMLWebpackPlugin'']
       = [plugins (module_exports h) ! 1]"
  by (simp add: module_exports_def isDev_def)

text \<open>
  C9. In every mode the plugin list starts with the clean-output-directory plugin; the
  template, copy and style-extraction plugins follow it, in that order.
\<close>

theorem clean_plugin_first:
  "hd (plugins (module_exports h)) = CleanWebpackPlugin
   \<and> plugins (module_exports h) ! 0 = CleanWebpackPlugin
   \<and> map plugin_name (plugins (module_exports h))
       = [''CleanWebpackPlugin'', ''HTMLWebpackPlugin'', ''CopyPlugin'', ''MiniCssExtractPlugin'']"
  by (simp add: module_exports_def)

section \<open>What the mode does not change\<close>

text \<open>
  C10. Two hosts that differ in the environment signal only yield configurations that
  differ in the mode-conditional values only: after \<open>erase_mode_conditional\<close> they are
  equal. In particular, for every signal, the entry list is
  \<^verbatim>\<open>["@babel/polyfill", "./index.js"]\<close>, the dev server's port is 3000, the alias map
  binds \<^verbatim>\<open>@\<close> and \<^verbatim>\<open>@core\<close> (to the \<^verbatim>\<open>src\<close> and \<^verbatim>\<open>src/core\<close> directories), and the
  plugins are the same four constructors in the same order.
\<close>

theorem mode_changes_conditional_values_only:
  "erase_mode_conditional (module_exports (h\<lparr>NODE_ENV := e1\<rparr>))
     = erase_mode_conditional (module_exports (h\<lparr>NODE_ENV := e2\<rparr>))
   \<and> entry (module_exports (h\<lparr>NODE_ENV := e1\<rparr>)) = [''@babel/polyfill'', ''./index.js'']
   \<and> port (devServer (module_exports (h\<lparr>NODE_ENV := e1\<rparr>))) = 3000
   \<and> alias_map (resolve (module_exports (h\<lparr>NODE_ENV := e1\<rparr>)))
       = [(''@'', path_resolve h (dirname h) ''src''),
          (''@core'', path_resolve h (dirname h) ''src/core'')]
   \<and> map plugin_name (plugins (module_exports (h\<lparr>NODE_ENV := e1\<rparr>)))
       = [''CleanWebpackPlugin'', ''HTMLWebpackPlugin'', ''CopyPlugin'', ''MiniCssExtractPlugin'']"
  by (simp add: module_exports_def erase_mode_conditional_def erase_rule_def jsLoaders_def Let_def)

end
